theory Spec2Isabelle
  imports Complex_Main "HOL-Library.Log_Nat"
begin

section \<open>JavaScript values\<close>

text \<open>
  The module \<^verbatim>\<open>prebidCurrencyRatesFileAlerter.js\<close> is a Node.js Lambda handler. Its
  functions are embedded below one by one, under the names they have in the object
  \<^verbatim>\<open>spec\<close> of the source.

  A JavaScript Number is \<open>NaN\<close>, an infinity or a finite double. A finite double is
  represented by the rational number it denotes (both zeros by \<open>0\<close>). The only arithmetic
  of the module is \<^verbatim>\<open>Math.round((second - first) / (1000 * 60 * 60 * 24))\<close> on the time
  values of two dates: the subtraction and the division each round their exact result to
  the nearest double.
\<close>

datatype number = NaN | Finite rat | PosInfinity | NegInfinity

text \<open>
  The rounding of IEEE 754 binary64 arithmetic, to nearest with ties to even.
  \<open>binary_exponent x\<close> is the \<open>e\<close> with \<open>2^e \<le> |x| < 2^(e+1)\<close> (lemma
  \<open>binary_exponent_bounds\<close>), found from the bit lengths of numerator and denominator. A
  double near \<open>x\<close> is a multiple of \<open>2^(e - 52)\<close>, and of \<open>2^-1074\<close> for a subnormal \<open>x\<close>;
  \<open>round_half_even\<close> picks the nearest multiple, the even one of two equally near. A
  result of magnitude \<open>2^1024\<close> or more is an infinity.
\<close>

definition binary_exponent :: "rat \<Rightarrow> int" where
  "binary_exponent x =
     (case quotient_of \<bar>x\<bar> of
        (p, q) \<Rightarrow> let e = bitlen p - bitlen q in if 2 powi e \<le> \<bar>x\<bar> then e else e - 1)"

definition round_half_even :: "rat \<Rightarrow> int" where
  "round_half_even m =
     (let n = \<lfloor>m\<rfloor>; r = m - of_int n
      in if r < 1 / 2 then n else if 1 / 2 < r then n + 1 else if even n then n else n + 1)"

definition round_to_double :: "rat \<Rightarrow> number" where
  "round_to_double x =
     (if x = 0 then Finite 0
      else let e = max (binary_exponent x) (- 1022);
               ulp = 2 powi (e - 52);
               y = of_int (round_half_even (x / ulp)) * ulp
           in if 2 powi 1024 \<le> \<bar>y\<bar> then (if 0 < x then PosInfinity else NegInfinity)
              else Finite y)"

text \<open>\<^verbatim>\<open>a - b\<close> on Numbers.\<close>

fun num_sub :: "number \<Rightarrow> number \<Rightarrow> number" where
  "num_sub NaN _ = NaN"
| "num_sub _ NaN = NaN"
| "num_sub (Finite a) (Finite b) = round_to_double (a - b)"
| "num_sub (Finite a) PosInfinity = NegInfinity"
| "num_sub (Finite a) NegInfinity = PosInfinity"
| "num_sub PosInfinity PosInfinity = NaN"
| "num_sub PosInfinity _ = PosInfinity"
| "num_sub NegInfinity NegInfinity = NaN"
| "num_sub NegInfinity _ = NegInfinity"

text \<open>\<^verbatim>\<open>a / b\<close> on Numbers; a zero divisor is read as \<open>+0\<close>.\<close>

fun num_div :: "number \<Rightarrow> number \<Rightarrow> number" where
  "num_div NaN _ = NaN"
| "num_div _ NaN = NaN"
| "num_div (Finite a) (Finite b) =
     (if b = 0 then (if a = 0 then NaN else if 0 < a then PosInfinity else NegInfinity)
      else round_to_double (a / b))"
| "num_div (Finite a) _ = Finite 0"
| "num_div PosInfinity (Finite b) = (if 0 \<le> b then PosInfinity else NegInfinity)"
| "num_div NegInfinity (Finite b) = (if 0 \<le> b then NegInfinity else PosInfinity)"
| "num_div _ _ = NaN"

text \<open>Unary minus, the comparison \<^verbatim>\<open>a > b\<close> and the equality \<^verbatim>\<open>a == b\<close> on Numbers: every
  comparison with \<open>NaN\<close> is false.\<close>

fun num_neg :: "number \<Rightarrow> number" where
  "num_neg NaN = NaN"
| "num_neg (Finite a) = Finite (- a)"
| "num_neg PosInfinity = NegInfinity"
| "num_neg NegInfinity = PosInfinity"

fun num_gt :: "number \<Rightarrow> number \<Rightarrow> bool" where
  "num_gt NaN _ = False"
| "num_gt _ NaN = False"
| "num_gt (Finite a) (Finite b) = (b < a)"
| "num_gt (Finite a) PosInfinity = False"
| "num_gt (Finite a) NegInfinity = True"
| "num_gt PosInfinity PosInfinity = False"
| "num_gt PosInfinity _ = True"
| "num_gt NegInfinity _ = False"

fun num_eq :: "number \<Rightarrow> number \<Rightarrow> bool" where
  "num_eq NaN _ = False"
| "num_eq _ NaN = False"
| "num_eq a b = (a = b)"

text \<open>\<^verbatim>\<open>Math.round(x)\<close>: the integer closest to \<open>x\<close>; of two equally close integers, the one
  closer to \<open>+\<infinity>\<close> (ECMA-262, Math.round).\<close>

fun Math_round :: "number \<Rightarrow> number" where
  "Math_round (Finite x) = Finite (of_int \<lfloor>x + 1 / 2\<rfloor>)"
| "Math_round x = x"

text \<open>The values a JSON text parses to, together with \<^verbatim>\<open>undefined\<close>. An object is the list
  of its own properties.\<close>

datatype jsval =
    Undefined
  | Null
  | Boolean bool
  | Number number
  | String string
  | Array "jsval list"
  | Object "(string \<times> jsval) list"

text \<open>\<^verbatim>\<open>ToBoolean\<close>: what \<^verbatim>\<open>!v\<close>, \<^verbatim>\<open>if (v)\<close> and \<^verbatim>\<open>v || d\<close> test.\<close>

fun ToBoolean :: "jsval \<Rightarrow> bool" where
  "ToBoolean Undefined = False"
| "ToBoolean Null = False"
| "ToBoolean (Boolean b) = b"
| "ToBoolean (Number n) = (n \<noteq> NaN \<and> n \<noteq> Finite 0)"
| "ToBoolean (String s) = (s \<noteq> [])"
| "ToBoolean (Array xs) = True"
| "ToBoolean (Object ps) = True"

text \<open>\<^verbatim>\<open>v[key]\<close> for a value \<open>v\<close> that is neither \<^verbatim>\<open>undefined\<close> nor \<^verbatim>\<open>null\<close> and a key
  that is no index and no built-in property: an own property of an object, and
  \<^verbatim>\<open>undefined\<close> otherwise.\<close>

fun Get :: "jsval \<Rightarrow> string \<Rightarrow> jsval" where
  "Get (Object ps) key = (case map_of ps key of Some v \<Rightarrow> v | None \<Rightarrow> Undefined)"
| "Get _ key = Undefined"

text \<open>A \<^verbatim>\<open>Date\<close> object is its time value: an integral number of milliseconds since the
  epoch, or \<open>NaN\<close> for an invalid date.\<close>

datatype Date = Date (time_value: number)

text \<open>The valid date with time value \<open>t\<close>, as \<^verbatim>\<open>new Date(t)\<close> builds it for an integer \<open>t\<close> in
  the range of time values.\<close>

definition Date_at :: "int \<Rightarrow> Date" where
  "Date_at t = Date (Finite (of_int t))"

text \<open>The exceptions a call can end with.\<close>

datatype exn = ReferenceError string | TypeError string

section \<open>The environment of an invocation\<close>

text \<open>The request and the response types of the two AWS clients. The nested request of
  \<^verbatim>\<open>SES.sendEmail\<close> is flattened: \<open>ToAddresses\<close> is \<^verbatim>\<open>Destination.ToAddresses\<close>,
  \<open>Subject_Data\<close> is \<^verbatim>\<open>Message.Subject.Data\<close>, \<open>Body_Text_Data\<close> is
  \<^verbatim>\<open>Message.Body.Text.Data\<close>, and so on.\<close>

record S3GetObjectParams =
  Bucket :: jsval
  Key :: jsval

record GetObjectOutput =
  Body :: string

record SendEmailParams =
  ToAddresses :: jsval
  Subject_Data :: jsval
  Subject_Charset :: string
  Body_Text_Data :: jsval
  Body_Text_Charset :: string
  Source :: jsval
  ReplyToAddresses :: jsval

datatype SendEmailResponse = SendEmailResponse (MessageId: string)

text \<open>An \<^verbatim>\<open>AWSError\<close> with its \<^verbatim>\<open>message\<close> and \<^verbatim>\<open>stack\<close>, and the value \<^verbatim>\<open>console.error\<close>
  receives for it.\<close>

datatype AWSError = AWSError (err_message: string) (err_stack: string)

definition error_object :: "AWSError \<Rightarrow> jsval" where
  "error_object err =
     Object [(''message'', String (err_message err)), (''stack'', String (err_stack err))]"

text \<open>The Lambda context; a missing context is \<open>None\<close>.\<close>

datatype LambdaContext = LambdaContext (awsRequestId: string)

text \<open>
  Everything the module reads from outside itself is a field of the record \<open>world\<close>, so
  that a theorem about every world holds for the real one:
  \<^item> \<open>process_env\<close> is \<^verbatim>\<open>process.env\<close> and \<open>clock\<close> the time value of \<^verbatim>\<open>new Date()\<close>;
  \<^item> \<open>JSON_parse\<close> is \<^verbatim>\<open>JSON.parse\<close> (\<open>None\<close>: it throws a SyntaxError), \<open>JSON_stringify\<close> is
    \<^verbatim>\<open>'' + JSON.stringify(v)\<close>, \<open>parseFloat\<close> is \<^verbatim>\<open>parseFloat\<close> on a string;
  \<^item> \<open>Date_new v\<close> is the time value of \<^verbatim>\<open>new Date(v)\<close> and \<open>ToString v\<close> the string
    \<^verbatim>\<open>'' + v\<close>; both convert \<open>v\<close> to a primitive first, which can throw;
  \<^item> \<open>global_call name\<close> is the outcome of the call \<^verbatim>\<open>name()\<close> of an identifier that the
    module does not declare: \<open>None\<close> when the global environment has no binding of that
    name either, as in Node.js for every name that is not a built-in;
  \<^item> \<open>s3_getObject\<close> and \<open>ses_sendEmail\<close> are the answers of the two services, which the
    SDK hands to the callback of the request, once.
\<close>

record world =
  process_env :: "string \<Rightarrow> string option"
  clock :: int
  JSON_parse :: "string \<Rightarrow> jsval option"
  JSON_stringify :: "jsval \<Rightarrow> string"
  parseFloat :: "string \<Rightarrow> number"
  Date_new :: "jsval \<Rightarrow> exn + number"
  ToString :: "jsval \<Rightarrow> exn + string"
  global_call :: "string \<Rightarrow> (exn + number) option"
  s3_getObject :: "S3GetObjectParams \<Rightarrow> AWSError + GetObjectOutput"
  ses_sendEmail :: "SendEmailParams \<Rightarrow> AWSError + SendEmailResponse"

text \<open>The result object \<^verbatim>\<open>{'message': message}\<close> and what an invocation does that can be
  observed: lines on the console, the two requests and the completion callback
  \<^verbatim>\<open>context.done(error, result)\<close>.\<close>

record Result =
  message :: string

datatype event =
    ConsoleLog jsval
  | ConsoleError jsval jsval
  | S3GetObject S3GetObjectParams
  | SesSendEmail SendEmailParams
  | ContextDone LambdaContext jsval Result

fun is_done :: "event \<Rightarrow> bool" where
  "is_done (ContextDone c e r) = True"
| "is_done _ = False"

fun is_alert :: "event \<Rightarrow> bool" where
  "is_alert (SesSendEmail p) = True"
| "is_alert _ = False"

section \<open>Configuration\<close>

text \<open>\<^verbatim>\<open>process.env.NAME || dflt\<close>, and the string \<^verbatim>\<open>parseFloat\<close> makes of
  \<^verbatim>\<open>process.env.NAME\<close>.\<close>

definition env_or :: "world \<Rightarrow> string \<Rightarrow> string \<Rightarrow> string" where
  "env_or w name dflt =
     (case process_env w name of
        None \<Rightarrow> dflt
      | Some v \<Rightarrow> if ToBoolean (String v) then v else dflt)"

definition env_text :: "world \<Rightarrow> string \<Rightarrow> string" where
  "env_text w name = (case process_env w name of None \<Rightarrow> ''undefined'' | Some v \<Rightarrow> v)"

definition getDebug :: "world \<Rightarrow> bool" where
  "getDebug w = (case process_env w ''DEBUG'' of None \<Rightarrow> True | Some v \<Rightarrow> v = ''1'')"

definition getBucket :: "world \<Rightarrow> string" where
  "getBucket w = env_or w ''S3_BUCKET'' ''currency.prebid.org''"

definition getFilename :: "world \<Rightarrow> string" where
  "getFilename w = env_or w ''S3_FILENAME'' ''latest.json''"

definition getAlertFrom :: "world \<Rightarrow> string" where
  "getAlertFrom w = env_or w ''ALERT_FROM'' ''alerts@prebid.org''"

definition getAlertTo :: "world \<Rightarrow> string" where
  "getAlertTo w = env_or w ''ALERT_TO'' ''alerts@prebid.org''"

definition getStaleOlderThanDays :: "world \<Rightarrow> number" where
  "getStaleOlderThanDays w =
     (let n = parseFloat w (env_text w ''STALE_OLDER_THAN_DAYS'')
      in if ToBoolean (Number n) then n else Finite 2)"

definition getAlertSubject :: "world \<Rightarrow> jsval" where
  "getAlertSubject w =
     (let n = parseFloat w (env_text w ''ALERT_SUBJECT'')
      in if ToBoolean (Number n) then Number n
         else String ''ALERT: Prebid Currency Rates File Monitor'')"

section \<open>Logging and small constructors\<close>

definition log :: "world \<Rightarrow> jsval \<Rightarrow> event list" where
  "log w line = (if getDebug w then [ConsoleLog line] else [])"

definition logError :: "jsval \<Rightarrow> jsval \<Rightarrow> event list" where
  "logError line error = [ConsoleError line error]"

definition createResult :: "string \<Rightarrow> Result" where
  "createResult m = \<lparr>message = m\<rparr>"

definition createS3GetObjectParams ::
  "jsval \<Rightarrow> jsval \<Rightarrow> event list \<times> S3GetObjectParams option" where
  "createS3GetObjectParams bucket key =
     (if \<not> ToBoolean bucket \<or> \<not> ToBoolean key
      then (logError (String ''Error: missing argument for createS3GetObjectParams'')
              (Array [bucket, key]), None)
      else ([], Some \<lparr>Bucket = bucket, Key = key\<rparr>))"

definition parseJson :: "world \<Rightarrow> string \<Rightarrow> event list \<times> jsval" where
  "parseJson w data =
     (case JSON_parse w data of
        None \<Rightarrow> (logError (String ''Error: malformed json:'') (String data), Undefined)
      | Some currencyRates \<Rightarrow> ([], currencyRates))"

section \<open>Staleness\<close>

definition daysDifference :: "Date \<Rightarrow> Date \<Rightarrow> number" where
  "daysDifference first second =
     Math_round (num_div (num_sub (time_value second) (time_value first))
       (Finite (1000 * 60 * 60 * 24)))"

text \<open>The object \<^verbatim>\<open>{ stale: false }\<close>, to which a \<^verbatim>\<open>result\<close> is added.\<close>

record FileDateResult =
  stale :: bool
  result :: "Result option"

text \<open>\<^verbatim>\<open>getFileStaleResult\<close>: \<^verbatim>\<open>new Date(dataAsOf)\<close> is built first, then \<^verbatim>\<open>new Date()\<close>, which
  is valid; \<open>dataAsOf\<close> is converted to a string when the message is concatenated, in the
  branch taken.\<close>

definition getFileStaleResult :: "world \<Rightarrow> jsval \<Rightarrow> number \<Rightarrow> exn + FileDateResult" where
  "getFileStaleResult w dataAsOf staleOlderThanDays =
     (let fileDateResult = \<lparr>stale = False, result = None\<rparr> in
      case Date_new w dataAsOf of
        Inl e \<Rightarrow> Inl e
      | Inr t \<Rightarrow>
          let daysSinceCurrencyFile =
                daysDifference (Date t) (Date_at (clock w))
          in if num_gt daysSinceCurrencyFile staleOlderThanDays
             then (case ToString w dataAsOf of
                     Inl e \<Rightarrow> Inl e
                   | Inr s \<Rightarrow>
                       Inr (fileDateResult\<lparr>stale := True, result := Some (createResult
                         (''The Prebid currency rates conversion data has a stale timestamp of ''
                          @ s @ ''. Please check the generator logs for failures: ''
                          @ ''https://console.aws.amazon.com/cloudwatch/home?region=us-east-1#logStream:group=/aws/lambda/prebidCurrencyRatesFileGenerator;streamFilter=typeLogStreamPrefix''))\<rparr>))
             else (case ToString w dataAsOf of
                     Inl e \<Rightarrow> Inl e
                   | Inr s \<Rightarrow>
                       Inr (fileDateResult\<lparr>result := Some (createResult
                         (''The Prebid currency rates conversion data has a timestamp of ''
                          @ s @ '', found not to be stale.''))\<rparr>)))"

section \<open>Alerting\<close>

text \<open>The callback \<^verbatim>\<open>sendEmailCallback(err, data)\<close> that \<^verbatim>\<open>sendEmailHandler\<close> returns, closed over
  \<open>result\<close> and \<open>context\<close>.\<close>

definition sendEmailCallback ::
  "world \<Rightarrow> Result \<Rightarrow> LambdaContext \<Rightarrow> AWSError option \<Rightarrow> SendEmailResponse option
     \<Rightarrow> event list" where
  "sendEmailCallback w res context err data =
     (case err of
        Some e \<Rightarrow> logError (error_object e) (String (err_stack e))
      | None \<Rightarrow> log w (String (''Alert '' @ [CHR 0x27] @ message res @ [CHR 0x27] @ '' sent. '')))
     @ [ContextDone context Null res]"

definition sendEmailHandler ::
  "world \<Rightarrow> Result option \<Rightarrow> LambdaContext option
     \<Rightarrow> event list \<times> (AWSError option \<Rightarrow> SendEmailResponse option \<Rightarrow> event list) option" where
  "sendEmailHandler w res context =
     (case res of
        None \<Rightarrow>
          (logError (String (''Error: missing '' @ [CHR 0x22] @ ''result'' @ [CHR 0x22]
             @ '' argument for sendEmailHandler'')) Undefined, None)
      | Some r \<Rightarrow>
          (case context of
             None \<Rightarrow>
               (logError (String (''Error: missing '' @ [CHR 0x22] @ ''context'' @ [CHR 0x22]
                  @ '' argument for sendEmailHandler'')) Undefined, None)
           | Some c \<Rightarrow> ([], Some (sendEmailCallback w r c))))"

text \<open>The argument of \<^verbatim>\<open>createSendEmailParams\<close> is read by property name
  (\<^verbatim>\<open>config[configProp]\<close>): it is the list of its properties. \<open>every_required\<close> is the call
  of \<^verbatim>\<open>every\<close> on the list of required names: it stops at the first name whose value is
  falsy, which it logs.\<close>

type_synonym config = "(string \<times> jsval) list"

fun every_required :: "config \<Rightarrow> string list \<Rightarrow> event list \<times> bool" where
  "every_required config [] = ([], True)"
| "every_required config (configProp # rest) =
     (if ToBoolean (Get (Object config) configProp) then every_required config rest
      else (logError (String (''Error: missing required argument for createSendEmailParams:''
              @ configProp)) Undefined, False))"

definition createSendEmailParams :: "config \<Rightarrow> event list \<times> SendEmailParams option" where
  "createSendEmailParams config =
     (case every_required config
             [''alertTo'', ''alertSubject'', ''alertFrom'', ''alertReplyTo'', ''message''] of
        (evs, False) \<Rightarrow> (evs, None)
      | (evs, True) \<Rightarrow>
          (evs, Some \<lparr>ToAddresses = Get (Object config) ''alertTo'',
                      Subject_Data = Get (Object config) ''alertSubject'',
                      Subject_Charset = ''UTF-8'',
                      Body_Text_Data = Get (Object config) ''message'',
                      Body_Text_Charset = ''UTF-8'',
                      Source = Get (Object config) ''alertFrom'',
                      ReplyToAddresses = Array [Get (Object config) ''alertReplyTo'']\<rparr>))"

text \<open>\<^verbatim>\<open>sendAlert\<close>: the request is sent and the service's answer goes to the callback.\<close>

definition sendAlert :: "world \<Rightarrow> Result option \<Rightarrow> LambdaContext option \<Rightarrow> event list" where
  "sendAlert w res context =
     (case res of
        None \<Rightarrow> logError (String ''Error: result argument is undefined for sendAlert'') Undefined
      | Some r \<Rightarrow>
          (case createSendEmailParams
                  [(''alertTo'', String (getAlertTo w)),
                   (''alertSubject'', getAlertSubject w),
                   (''alertFrom'', String (getAlertFrom w)),
                   (''alertReplyTo'', String (getAlertFrom w)),
                   (''message'', String (message r))] of
             (evs1, None) \<Rightarrow>
               evs1 @ logError (String ''Error missing argument for sendAlert'') Undefined
           | (evs1, Some sendEmailParams) \<Rightarrow>
               (case sendEmailHandler w res context of
                  (evs2, None) \<Rightarrow>
                    evs1 @ evs2
                    @ logError (String ''Error missing arguments for sendAlert'') Undefined
                | (evs2, Some callback) \<Rightarrow>
                    evs1 @ evs2 @ [SesSendEmail sendEmailParams]
                    @ (case ses_sendEmail w sendEmailParams of
                         Inl err \<Rightarrow> callback (Some err) None
                       | Inr data \<Rightarrow> callback None (Some data)))))"

section \<open>The pipeline\<close>

text \<open>
  A call returns the events it caused and either \<open>Inr ()\<close>, when it returned, or \<open>Inl e\<close>,
  when it threw \<open>e\<close>. In \<^verbatim>\<open>currencyRatesLoadSuccess\<close> the threshold is the call
  \<^verbatim>\<open>getStaleOlderThanDays()\<close> of a bare identifier, which is not \<^verbatim>\<open>spec.getStaleOlderThanDays\<close>:
  the methods of the object literal \<^verbatim>\<open>spec\<close> are no bindings of the module scope, so the
  identifier is looked up in the global environment (\<open>global_call\<close>), and the call throws a
  ReferenceError when it is not bound there. The arguments of
  \<^verbatim>\<open>spec.getFileStaleResult(currencyRates.dataAsOf, getStaleOlderThanDays())\<close> are evaluated
  before the call, from left to right.
\<close>

definition currencyRatesLoadSuccess ::
  "world \<Rightarrow> GetObjectOutput \<Rightarrow> LambdaContext option \<Rightarrow> event list \<times> (exn + unit)" where
  "currencyRatesLoadSuccess w data context =
     (case parseJson w (Body data) of
        (evs, currencyRates) \<Rightarrow>
          if \<not> ToBoolean currencyRates then (evs, Inr ())
          else
            (case global_call w ''getStaleOlderThanDays'' of
               None \<Rightarrow> (evs, Inl (ReferenceError ''getStaleOlderThanDays is not defined''))
             | Some (Inl e) \<Rightarrow> (evs, Inl e)
             | Some (Inr staleOlderThanDays) \<Rightarrow>
                 (case getFileStaleResult w (Get currencyRates ''dataAsOf'')
                         staleOlderThanDays of
                    Inl e \<Rightarrow> (evs, Inl e)
                  | Inr fileResult \<Rightarrow>
                      if stale fileResult
                      then (case result fileResult of
                              None \<Rightarrow> (evs, Inl (TypeError ''fileResult.result is undefined''))
                            | Some r \<Rightarrow>
                                (evs @ logError (String (message r)) Undefined
                                   @ sendAlert w (Some r) context, Inr ()))
                      else (case result fileResult of
                              None \<Rightarrow> (evs, Inl (TypeError ''fileResult.result is undefined''))
                            | Some r \<Rightarrow>
                                (case context of
                                   None \<Rightarrow>
                                     (evs @ log w (String (message r)),
                                      Inl (TypeError ''context is undefined''))
                                 | Some c \<Rightarrow>
                                     (evs @ log w (String (message r))
                                        @ [ContextDone c Null r], Inr ()))))))"

definition currencyRatesLoadError ::
  "world \<Rightarrow> AWSError \<Rightarrow> LambdaContext option \<Rightarrow> event list" where
  "currencyRatesLoadError w err context =
     logError (error_object err) (String (err_stack err))
     @ (let res = createResult (''Error reading currency rates file from S3: ''
                    @ err_message err)
        in sendAlert w (Some res) context)"

text \<open>The callback \<^verbatim>\<open>s3GetObjectCallback(err, data)\<close> that \<^verbatim>\<open>s3GetObjectHandler\<close> returns, closed
  over \<open>context\<close>.\<close>

definition s3GetObjectCallback ::
  "world \<Rightarrow> LambdaContext \<Rightarrow> AWSError option \<Rightarrow> GetObjectOutput option
     \<Rightarrow> event list \<times> (exn + unit)" where
  "s3GetObjectCallback w context err data =
     (case err of
        None \<Rightarrow>
          (case data of
             None \<Rightarrow> ([], Inl (TypeError ''data is undefined''))
           | Some d \<Rightarrow> currencyRatesLoadSuccess w d (Some context))
      | Some e \<Rightarrow> (currencyRatesLoadError w e (Some context), Inr ()))"

definition s3GetObjectHandler ::
  "world \<Rightarrow> LambdaContext option
     \<Rightarrow> event list
        \<times> (AWSError option \<Rightarrow> GetObjectOutput option \<Rightarrow> event list \<times> (exn + unit)) option" where
  "s3GetObjectHandler w context =
     (case context of
        None \<Rightarrow>
          (logError (String ''Error: invalid arguments for s3GetObjectHandler'') Undefined, None)
      | Some c \<Rightarrow> ([], Some (s3GetObjectCallback w c)))"

text \<open>\<^verbatim>\<open>exports.handler\<close>: one invocation. The request to S3 is sent and the service's answer
  goes to the callback; an exception of the callback ends the invocation.\<close>

definition handler :: "world \<Rightarrow> jsval \<Rightarrow> LambdaContext option \<Rightarrow> event list \<times> (exn + unit)" where
  "handler w event context =
     (let evs0 = log w (String (''Event: '' @ JSON_stringify w event)) in
      case createS3GetObjectParams (String (getBucket w)) (String (getFilename w)) of
        (evs1, None) \<Rightarrow> (evs0 @ evs1, Inr ())
      | (evs1, Some objectRequestParams) \<Rightarrow>
          (case s3GetObjectHandler w context of
             (evs2, None) \<Rightarrow> (evs0 @ evs1 @ evs2, Inr ())
           | (evs2, Some callback) \<Rightarrow>
               (case (case s3_getObject w objectRequestParams of
                        Inl err \<Rightarrow> callback (Some err) None
                      | Inr data \<Rightarrow> callback None (Some data)) of
                  (evs3, outcome) \<Rightarrow>
                    (evs0 @ evs1 @ evs2 @ [S3GetObject objectRequestParams] @ evs3, outcome))))"

text \<open>How often an invocation called \<^verbatim>\<open>context.done\<close>, and how often it sent an alert.\<close>

definition done_count :: "event list \<Rightarrow> nat" where
  "done_count evs = length (filter is_done evs)"

definition alert_count :: "event list \<Rightarrow> nat" where
  "alert_count evs = length (filter is_alert evs)"

section \<open>The rounding as the specification words it\<close>

text \<open>The specification's reading of \<^verbatim>\<open>daysDifference\<close>: the millisecond difference divided
  by 86,400,000 and rounded to the nearest whole day, ties rounded half away from zero.
  It follows the specification's words, not the source.\<close>

definition round_half_away_from_zero :: "rat \<Rightarrow> int" where
  "round_half_away_from_zero x = (if 0 \<le> x then \<lfloor>x + 1 / 2\<rfloor> else - \<lfloor>- x + 1 / 2\<rfloor>)"

definition daysDifference_spec :: "int \<Rightarrow> int \<Rightarrow> int" where
  "daysDifference_spec first second =
     round_half_away_from_zero (of_int (second - first) / 86400000)"

section \<open>Example worlds\<close>

text \<open>
  A world for the examples: no environment variable is set, the clock reads
  2026-11-03T00:00:00Z, the bucket holds a file with \<^verbatim>\<open>dataAsOf\<close> one day before, no global
  function \<^verbatim>\<open>getStaleOlderThanDays\<close> exists, and both services answer. Its built-ins are
  small tables with the values Node.js gives:
  \<^item> \<open>example_JSON_parse\<close> knows five JSON texts and takes any other text for malformed,
    which is right for \<^verbatim>\<open>not json\<close>, the only other text the examples parse;
  \<^item> \<open>example_parseFloat\<close> knows two texts that start with a number and gives \<open>NaN\<close> for any
    other text, which is right for \<^verbatim>\<open>undefined\<close> and \<^verbatim>\<open>Currency alert\<close>, the only other
    texts the examples convert;
  \<^item> \<open>example_Date_new\<close> knows the date text \<^verbatim>\<open>2026-11-02\<close> (midnight UTC) and
    \<open>example_ToString\<close> returns a string as it is; the examples convert nothing else.
\<close>

definition example_file :: string where
  \<open>example_file = ''{"dataAsOf":"2026-11-02"}''\<close>

definition example_JSON_parse :: "string \<Rightarrow> jsval option" where
  \<open>example_JSON_parse =
     map_of [(''null'', Null), (''false'', Boolean False), (''0'', Number (Finite 0)),
             (''""'', String []),
             (example_file, Object [(''dataAsOf'', String ''2026-11-02'')])]\<close>

definition example_parseFloat :: "string \<Rightarrow> number" where
  "example_parseFloat s =
     (case map_of [(''3'', Finite 3), (''5 alarm fire'', Finite 5)] s of
        Some n \<Rightarrow> n
      | None \<Rightarrow> NaN)"

definition example_Date_new :: "jsval \<Rightarrow> exn + number" where
  "example_Date_new v =
     (if v = String ''2026-11-02'' then Inr (Finite 1793577600000) else Inr NaN)"

definition example_ToString :: "jsval \<Rightarrow> exn + string" where
  "example_ToString v = (case v of String s \<Rightarrow> Inr s | _ \<Rightarrow> Inr ''undefined'')"

definition example_world :: world where
  "example_world =
     \<lparr>process_env = Map.empty,
      clock = 1793664000000,
      JSON_parse = example_JSON_parse,
      JSON_stringify = (\<lambda>v. ''{}''),
      parseFloat = example_parseFloat,
      Date_new = example_Date_new,
      ToString = example_ToString,
      global_call = Map.empty,
      s3_getObject = (\<lambda>p. Inr \<lparr>Body = example_file\<rparr>),
      ses_sendEmail = (\<lambda>p. Inr (SendEmailResponse ''0001''))\<rparr>"

text \<open>The same world with another answer of S3: the body \<^verbatim>\<open>null\<close>, the body
  \<^verbatim>\<open>not json\<close>, and the error \<^verbatim>\<open>access denied\<close>.\<close>

definition world_null_body :: world where
  "world_null_body = example_world\<lparr>s3_getObject := (\<lambda>p. Inr \<lparr>Body = ''null''\<rparr>)\<rparr>"

definition world_malformed_body :: world where
  "world_malformed_body = example_world\<lparr>s3_getObject := (\<lambda>p. Inr \<lparr>Body = ''not json''\<rparr>)\<rparr>"

definition world_access_denied :: world where
  "world_access_denied =
     example_world\<lparr>s3_getObject := (\<lambda>p. Inl (AWSError ''access denied'' ''AccessDenied: access denied''))\<rparr>"

text \<open>The same world with \<^verbatim>\<open>ALERT_SUBJECT\<close> set, and with a mail service that fails.\<close>

definition world_subject_set :: world where
  "world_subject_set =
     example_world\<lparr>process_env := [''ALERT_SUBJECT'' \<mapsto> ''Currency alert'']\<rparr>"

definition world_send_fails :: world where
  "world_send_fails =
     example_world\<lparr>ses_sendEmail := (\<lambda>p. Inl (AWSError ''throttled'' ''Throttling: throttled''))\<rparr>"

definition example_context :: LambdaContext where
  "example_context = LambdaContext ''request-1''"

definition example_config :: config where
  "example_config =
     [(''alertTo'', String ''alerts@prebid.org''),
      (''alertSubject'', String ''ALERT: Prebid Currency Rates File Monitor''),
      (''alertFrom'', String ''alerts@prebid.org''),
      (''alertReplyTo'', String ''alerts@prebid.org''),
      (''message'', String ''stale'')]"

text \<open>The request that \<^verbatim>\<open>sendAlert\<close> hands to \<^verbatim>\<open>SES.sendEmail\<close> for a result: what
  \<^verbatim>\<open>createSendEmailParams\<close> makes of the configuration \<^verbatim>\<open>sendAlert\<close> passes (lemma
  \<open>createSendEmailParams_alert\<close> below).\<close>

definition alert_request :: "world \<Rightarrow> Result \<Rightarrow> SendEmailParams" where
  "alert_request w r =
     \<lparr>ToAddresses = String (getAlertTo w),
      Subject_Data = getAlertSubject w,
      Subject_Charset = ''UTF-8'',
      Body_Text_Data = String (message r),
      Body_Text_Charset = ''UTF-8'',
      Source = String (getAlertFrom w),
      ReplyToAddresses = Array [String (getAlertFrom w)]\<rparr>"

section \<open>The day difference\<close>

text \<open>The rounding: the exponent is the right one, the error of \<open>round_half_even\<close> is at
  most a half, a multiple of \<open>2^-j\<close> below \<open>2^(53 - j)\<close> is a double, and below \<open>2^27\<close> the
  rounding error is at most \<open>2^-27\<close>.\<close>

lemma binary_exponent_bounds:
  assumes "x \<noteq> 0"
  shows "2 powi binary_exponent x \<le> \<bar>x\<bar>" and "\<bar>x\<bar> < 2 powi (binary_exponent x + 1)"
proof -
  obtain p q where pq: "quotient_of \<bar>x\<bar> = (p, q)"
    by (cases "quotient_of \<bar>x\<bar>")
  then have q: "0 < q" and x: "\<bar>x\<bar> = of_int p / of_int q"
    by (simp_all add: quotient_of_denom_pos quotient_of_div)
  have "0 < \<bar>x\<bar>"
    using assms by simp
  then have "0 < rat_of_int p / rat_of_int q"
    using x by simp
  with q have p: "0 < p"
    by (simp add: zero_less_divide_iff)
  let ?e = "bitlen p - bitlen q"
  have bp: "2 ^ nat (bitlen p - 1) \<le> p" "p < 2 ^ nat (bitlen p)"
    using bitlen_bounds [OF p] by simp_all
  have bq: "2 ^ nat (bitlen q - 1) \<le> q" "q < 2 ^ nat (bitlen q)"
    using bitlen_bounds [OF q] by simp_all
  have lp: "1 \<le> bitlen p" and lq: "1 \<le> bitlen q"
    using p q by (simp_all add: bitlen_alt_def)
  have pw: "(2::rat) powi k = of_int (2 ^ nat k)" if "0 \<le> k" for k
    using that by (simp add: power_int_nonneg_exp)
  have rp: "(2::rat) powi (bitlen p - 1) \<le> of_int p" "rat_of_int p < 2 powi bitlen p"
    using bp lp by (simp_all only: pw of_int_le_iff of_int_less_iff bitlen_nonneg diff_ge_0_iff_ge)
  have rq: "(2::rat) powi (bitlen q - 1) \<le> of_int q" "rat_of_int q < 2 powi bitlen q"
    using bq lq by (simp_all only: pw of_int_le_iff of_int_less_iff bitlen_nonneg diff_ge_0_iff_ge)
  have low: "2 powi (?e - 1) \<le> \<bar>x\<bar>"
  proof -
    have "(2::rat) powi (?e - 1) = 2 powi (bitlen p - 1) / 2 powi bitlen q"
      by (simp add: power_int_diff)
    also have "\<dots> \<le> of_int p / of_int q"
      using rp rq p q by (intro frac_le) simp_all
    finally show ?thesis
      using x by simp
  qed
  have high: "\<bar>x\<bar> < 2 powi (?e + 1)"
  proof -
    have "of_int p / of_int q < (2::rat) powi bitlen p / 2 powi (bitlen q - 1)"
      using rp rq p q by (intro frac_less) simp_all
    also have "\<dots> = 2 powi (?e + 1)"
      by (simp add: power_int_diff power_int_add)
    finally show ?thesis
      using x by simp
  qed
  have e: "binary_exponent x = (if 2 powi ?e \<le> \<bar>x\<bar> then ?e else ?e - 1)"
    by (simp add: binary_exponent_def pq Let_def)
  show "2 powi binary_exponent x \<le> \<bar>x\<bar>"
    using low by (simp add: e)
  show "\<bar>x\<bar> < 2 powi (binary_exponent x + 1)"
    using high by (simp add: e not_le)
qed

lemma round_half_even_error: "\<bar>of_int (round_half_even m) - m\<bar> \<le> 1 / 2"
proof -
  have "of_int \<lfloor>m\<rfloor> \<le> m" "m < of_int \<lfloor>m\<rfloor> + 1"
    using floor_correct [of m] by simp_all
  then show ?thesis
    by (auto simp: round_half_even_def Let_def)
qed

lemma round_half_even_of_int: "round_half_even (of_int k) = k"
  by (simp add: round_half_even_def)


lemma binary_exponent_less:
  assumes "x \<noteq> 0" and "\<bar>x\<bar> < 2 powi k"
  shows "binary_exponent x < k"
proof (rule ccontr)
  assume "\<not> binary_exponent x < k"
  then have "(2::rat) powi k \<le> 2 powi binary_exponent x"
    by (intro power_int_increasing) simp_all
  with binary_exponent_bounds(1) [OF assms(1)] assms(2) show False
    by simp
qed

lemma round_to_double_exact:
  assumes "x = of_int h / 2 ^ j" and "\<bar>x\<bar> < 2 ^ (53 - j)" and "j \<le> 53"
  shows "round_to_double x = Finite x"
proof (cases "x = 0")
  case True
  then show ?thesis
    by (simp add: round_to_double_def)
next
  case False
  define e where "e = max (binary_exponent x) (- 1022)"
  have "\<bar>x\<bar> < 2 powi (53 - int j)"
    using assms(2,3) by (simp add: power_int_def nat_diff_distrib)
  then have "binary_exponent x < 53 - int j"
    using False by (rule binary_exponent_less [rotated])
  then have e: "e \<le> 52 - int j"
    using assms(3) by (simp add: e_def)
  define k where "k = nat (52 - int j - e)"
  have "x / 2 powi (e - 52) = x * 2 powi (52 - e)"
    by (simp add: power_int_diff field_simps)
  also have "(2::rat) powi (52 - e) = 2 powi (int j + int k)"
    using e by (simp add: k_def)
  also have "\<dots> = 2 ^ j * 2 ^ k"
    by (simp add: power_int_add)
  also have "x * (2 ^ j * 2 ^ k) = of_int (h * 2 ^ k)"
    by (simp add: assms(1))
  finally have m: "x / 2 powi (e - 52) = of_int (h * 2 ^ k)" .
  have y: "of_int (round_half_even (x / 2 powi (e - 52))) * 2 powi (e - 52) = x"
    unfolding m round_half_even_of_int unfolding m [symmetric] by simp
  have "\<bar>x\<bar> < 2 ^ 53"
    using assms(2) power_increasing [of "53 - j" 53 "2::rat"] by simp
  also have "(2::rat) ^ 53 \<le> 2 ^ 1024"
    by (rule power_increasing) simp_all
  finally have "\<not> 2 powi 1024 \<le> \<bar>x\<bar>"
    by simp
  with False y show ?thesis
    by (simp add: round_to_double_def Let_def e_def)
qed

lemma round_to_double_error:
  assumes "\<bar>x\<bar> < 2 ^ 27"
  shows "\<exists>y. round_to_double x = Finite y \<and> \<bar>y - x\<bar> \<le> 1 / 2 ^ 27"
proof (cases "x = 0")
  case True
  then show ?thesis
    by (simp add: round_to_double_def)
next
  case False
  define e where "e = max (binary_exponent x) (- 1022)"
  define ulp :: rat where "ulp = 2 powi (e - 52)"
  define y where "y = of_int (round_half_even (x / ulp)) * ulp"
  have "binary_exponent x < 27"
    using False assms by (intro binary_exponent_less) simp_all
  then have "e - 52 \<le> - 26"
    by (simp add: e_def)
  then have "ulp \<le> 2 powi (- 26)"
    unfolding ulp_def by (intro power_int_increasing) simp_all
  then have ulp: "ulp \<le> 1 / 2 ^ 26"
    by (simp add: power_int_minus_divide)
  have pos: "0 < ulp"
    by (simp add: ulp_def)
  have "y - x = (of_int (round_half_even (x / ulp)) - x / ulp) * ulp"
    using pos by (simp add: y_def algebra_simps)
  then have "\<bar>y - x\<bar> = \<bar>of_int (round_half_even (x / ulp)) - x / ulp\<bar> * ulp"
    using pos by (simp add: abs_mult)
  also have "\<dots> \<le> 1 / 2 * ulp"
    using pos round_half_even_error [of "x / ulp"] by (intro mult_right_mono) simp_all
  also have "\<dots> \<le> 1 / 2 ^ 27"
    using ulp by simp
  finally have err: "\<bar>y - x\<bar> \<le> 1 / 2 ^ 27" .
  then have "\<bar>y\<bar> < 2 ^ 27 + 1"
    using assms by (simp add: abs_if split: if_splits)
  also have "(2::rat) ^ 27 + 1 \<le> 2 ^ 28"
    by simp
  also have "(2::rat) ^ 28 \<le> 2 ^ 1024"
    by (rule power_increasing) simp_all
  finally have "\<not> 2 powi 1024 \<le> \<bar>y\<bar>"
    by simp
  then have "round_to_double x = Finite y"
    using False by (simp add: round_to_double_def Let_def e_def ulp_def y_def)
  with err show ?thesis
    by blast
qed


lemma round_to_double_of_int:
  assumes "\<bar>d\<bar> < 2 ^ 53"
  shows "round_to_double (of_int d) = Finite (of_int d)"
proof -
  have "\<bar>rat_of_int d\<bar> < 2 ^ 53"
    using assms by (metis of_int_abs of_int_less_iff of_int_numeral of_int_power)
  then show ?thesis
    using round_to_double_exact [of "of_int d" d 0] by simp
qed

text \<open>The quotient of a difference below \<open>2^53\<close> by the milliseconds of a day: a quotient
  that is a half-integer is a double; any other is at least \<open>1/86400000\<close> away from every
  half-integer, which is more than the rounding error, so that \<^verbatim>\<open>Math.round\<close> of the double
  is \<^verbatim>\<open>Math.round\<close> of the exact quotient.\<close>

lemma round_quotient_double:
  fixes d :: int
  assumes "\<bar>d\<bar> < 2 ^ 53"
  shows "\<exists>y. round_to_double (of_int d / 86400000) = Finite y
     \<and> \<lfloor>y + 1 / 2\<rfloor> = \<lfloor>(of_int d :: rat) / 86400000 + 1 / 2\<rfloor>"
proof -
  define q :: rat where "q = of_int d / 86400000"
  define N where "N = d + 43200000"
  define n where "n = N div 86400000"
  define r where "r = N mod 86400000"
  have r: "0 \<le> r" "r < 86400000"
    by (simp_all add: r_def)
  have N: "N = 86400000 * n + r"
    by (simp add: n_def r_def)
  have half: "q + 1 / 2 = of_int n + of_int r / 86400000"
  proof -
    have "q + 1 / 2 = of_int N / 86400000"
      by (simp add: q_def N_def)
    also have "\<dots> = of_int n + of_int r / 86400000"
      unfolding N by simp
    finally show ?thesis .
  qed
  have fl: "\<lfloor>q + 1 / 2\<rfloor> = n"
  proof (rule floor_unique)
    show "of_int n \<le> q + 1 / 2"
      using r by (simp add: half)
    show "q + 1 / 2 < of_int n + 1"
      using r by (simp add: half)
  qed
  have "\<bar>rat_of_int d\<bar> < 2 ^ 53"
    using assms by (metis of_int_abs of_int_less_iff of_int_numeral of_int_power)
  then have small: "\<bar>q\<bar> < 2 ^ 27"
    by (simp add: q_def)
  show ?thesis
  proof (cases "r = 0")
    case True
    then have h: "q = of_int (2 * n - 1) / 2 ^ 1"
      using half by simp
    have "\<bar>q\<bar> < 2 ^ (53 - 1)"
      using small by simp
    with h have "round_to_double q = Finite q"
      by (rule round_to_double_exact) simp
    then show ?thesis
      unfolding q_def by blast
  next
    case False
    with r have r1: "1 \<le> r" "r \<le> 86399999"
      by simp_all
    from round_to_double_error [OF small] obtain y where
      y: "round_to_double q = Finite y" "\<bar>y - q\<bar> \<le> 1 / 2 ^ 27"
      by blast
    have lo: "1 / 86400000 \<le> rat_of_int r / 86400000"
      using r1 by simp
    have hi: "rat_of_int r / 86400000 \<le> 86399999 / 86400000"
      using r1 by simp
    have "\<lfloor>y + 1 / 2\<rfloor> = n"
    proof (rule floor_unique)
      show "of_int n \<le> y + 1 / 2"
        using y(2) lo half by (simp add: abs_if split: if_splits)
      show "y + 1 / 2 < of_int n + 1"
        using y(2) hi half by (simp add: abs_if split: if_splits)
    qed
    with y(1) fl show ?thesis
      unfolding q_def by simp
  qed
qed

lemma daysDifference_Date_at:
  assumes "\<bar>b - a\<bar> < 2 ^ 53"
  shows "daysDifference (Date_at a) (Date_at b) =
     Finite (of_int \<lfloor>(of_int (b - a) :: rat) / 86400000 + 1 / 2\<rfloor>)"
proof -
  from round_quotient_double [OF assms] obtain y where
    y: "round_to_double (of_int (b - a) / 86400000) = Finite y"
      "\<lfloor>y + 1 / 2\<rfloor> = \<lfloor>(of_int (b - a) :: rat) / 86400000 + 1 / 2\<rfloor>"
    by blast
  have "num_sub (Finite (of_int b)) (Finite (of_int a)) = Finite (of_int (b - a))"
    using round_to_double_of_int [OF assms] by simp
  then have "daysDifference (Date_at a) (Date_at b) = Math_round (Finite y)"
    using y(1) by (simp add: daysDifference_def Date_at_def)
  then show ?thesis
    using y(2) by simp
qed

lemma round_quotient_div:
  "\<lfloor>(of_int d :: rat) / 86400000 + 1 / 2\<rfloor> = (2 * d + 86400000) div 172800000"
proof -
  have "(of_int d :: rat) / 86400000 + 1 / 2 = of_int (2 * d + 86400000) / of_int 172800000"
    by simp
  then show ?thesis
    by (simp only: floor_divide_of_int_eq)
qed

lemma daysDifference_div:
  assumes "\<bar>b - a\<bar> < 2 ^ 53"
  shows "daysDifference (Date_at a) (Date_at b) =
     Finite (of_int ((2 * (b - a) + 86400000) div 172800000))"
  by (simp only: daysDifference_Date_at [OF assms] round_quotient_div)

lemma daysDifference_invalid:
  "daysDifference (Date NaN) d = NaN" "daysDifference d (Date NaN) = NaN"
  by (cases d; cases "time_value d"; simp add: daysDifference_def)+

text \<open>Two valid dates more than \<open>2^53\<close> ms apart: the earliest date there is and one
  9007199351999999 ms later. The difference is no double; the subtraction gives
  9007199352000000, whose quotient by the milliseconds of a day is 104249992.5.\<close>

lemma round_to_double_far:
  "round_to_double 9007199351999999 = Finite 9007199352000000"
  "round_to_double (- 9007199351999999) = Finite (- 9007199352000000)"
proof -
  have e: "binary_exponent 9007199351999999 = 53" "binary_exponent (- 9007199351999999) = 53"
    by code_simp+
  have r: "round_half_even (9007199351999999 / 2) = 4503599676000000"
    "round_half_even (- (9007199351999999 / 2)) = - 4503599676000000"
    by code_simp+
  show "round_to_double 9007199351999999 = Finite 9007199352000000"
    by (simp add: round_to_double_def e r)
  show "round_to_double (- 9007199351999999) = Finite (- 9007199352000000)"
    by (simp add: round_to_double_def e r)
qed

lemma daysDifference_far_apart:
  "daysDifference (Date_at (- 8640000000000000)) (Date_at 367199351999999) = Finite 104249993"
  "daysDifference (Date_at 367199351999999) (Date_at (- 8640000000000000))
     = Finite (- 104249992)"
proof -
  have q: "round_to_double (208499985 / 2) = Finite (208499985 / 2)"
    "round_to_double (- (208499985 / 2)) = Finite (- (208499985 / 2))"
    using round_to_double_exact [where x = "208499985 / 2" and h = 208499985 and j = 1]
      round_to_double_exact [where x = "- (208499985 / 2)" and h = "- 208499985" and j = 1]
    by simp_all
  have f: "\<lfloor>(208499985 / 2 :: rat) + 1 / 2\<rfloor> = 104249993"
    "\<lfloor>- (208499985 / 2 :: rat) + 1 / 2\<rfloor> = - 104249992"
    by code_simp+
  show "daysDifference (Date_at (- 8640000000000000)) (Date_at 367199351999999)
      = Finite 104249993"
    by (simp add: daysDifference_def Date_at_def round_to_double_far q f)
  show "daysDifference (Date_at 367199351999999) (Date_at (- 8640000000000000))
      = Finite (- 104249992)"
    by (simp add: daysDifference_def Date_at_def round_to_double_far q f)
qed

text \<open>The specification's rounding in integer arithmetic.\<close>

lemma daysDifference_spec_div:
  "daysDifference_spec first second =
     (if 0 \<le> second - first then (2 * (second - first) + 86400000) div 172800000
      else - ((2 * (- (second - first)) + 86400000) div 172800000))"
proof -
  have "- (rat_of_int (second - first) / 86400000) = of_int (- (second - first)) / 86400000"
    by (simp only: of_int_minus minus_divide_left)
  then have "\<lfloor>- (rat_of_int (second - first) / 86400000) + 1 / 2\<rfloor>
      = (2 * (- (second - first)) + 86400000) div 172800000"
    by (simp only: round_quotient_div)
  moreover have "(0 \<le> rat_of_int (second - first) / 86400000) = (0 \<le> second - first)"
    by (simp add: zero_le_divide_iff)
  ultimately show ?thesis
    unfolding daysDifference_spec_def round_half_away_from_zero_def
    by (simp only: round_quotient_div)
qed

text \<open>
  \<^bold>\<open>Claim C4\<close>, as amended. For every pair of valid dates less than \<open>2^53\<close> ms apart,
  \<^verbatim>\<open>daysDifference(first, second)\<close> is the whole number of days nearest to the millisecond
  difference \<open>second - first\<close> divided by 86,400,000, and of two equally near whole numbers
  it is the greater one: ties are rounded towards \<open>+\<infinity>\<close>, as \<^verbatim>\<open>Math.round\<close> does.
\<close>

theorem daysDifference_rounds_half_up:
  assumes "\<bar>second - first\<bar> < 2 ^ 53"
  shows "\<exists>n. daysDifference (Date_at first) (Date_at second) = Finite (of_int n)
     \<and> (of_int (second - first) :: rat) / 86400000 - 1 / 2 < of_int n
     \<and> of_int n \<le> (of_int (second - first) :: rat) / 86400000 + 1 / 2"
proof -
  let ?q = "(of_int (second - first) :: rat) / 86400000"
  let ?n = "\<lfloor>?q + 1 / 2\<rfloor>"
  have "of_int ?n \<le> ?q + 1 / 2"
    by (rule of_int_floor_le)
  moreover have "?q + 1 / 2 < of_int ?n + 1"
    using floor_correct [of "?q + 1 / 2"] by simp
  ultimately have "?q - 1 / 2 < of_int ?n \<and> of_int ?n \<le> ?q + 1 / 2"
    by linarith
  then show ?thesis
    unfolding daysDifference_Date_at [OF assms] by blast
qed

theorem daysDifference_rounds_half_up_witness:
  "\<bar>0 - 129600000\<bar> < (2::int) ^ 53
   \<and> (\<exists>n. daysDifference (Date_at 129600000) (Date_at 0) = Finite (of_int n)
        \<and> (of_int (0 - 129600000) :: rat) / 86400000 - 1 / 2 < of_int n
        \<and> of_int n \<le> (of_int (0 - 129600000) :: rat) / 86400000 + 1 / 2)"
proof -
  have near: "\<bar>0 - 129600000\<bar> < (2::int) ^ 53"
    by simp
  from near daysDifference_rounds_half_up [OF near] show ?thesis
    by (rule conjI)
qed

text \<open>The claim as stated fails one and a half days back: \<^verbatim>\<open>Math.round(-1.5)\<close> is \<open>-1\<close>, and
  rounding half away from zero gives \<open>-2\<close>. It also fails for the two dates of
  \<open>daysDifference_far_apart\<close>, where the subtraction is rounded before the division: the
  code returns 104249993, and the exact quotient 104249992.49999999 rounds to 104249992.\<close>

theorem daysDifference_half_away_counterexample:
  "daysDifference (Date_at 129600000) (Date_at 0) = Finite (- 1)
   \<and> daysDifference_spec 129600000 0 = - 2
   \<and> daysDifference (Date_at 129600000) (Date_at 0)
       \<noteq> Finite (of_int (daysDifference_spec 129600000 0))
   \<and> daysDifference (Date_at (- 8640000000000000)) (Date_at 367199351999999)
       = Finite 104249993
   \<and> daysDifference_spec (- 8640000000000000) 367199351999999 = 104249992"
proof -
  have "daysDifference (Date_at 129600000) (Date_at 0) = Finite (- 1)"
    by (simp add: daysDifference_div)
  moreover have "daysDifference_spec 129600000 0 = - 2"
    "daysDifference_spec (- 8640000000000000) 367199351999999 = 104249992"
    by (simp_all add: daysDifference_spec_div)
  ultimately show ?thesis
    using daysDifference_far_apart(1) by simp
qed

lemma half_shift_mod:
  fixes d h :: int
  assumes "0 < h"
  shows "(d + h) mod (2 * h) = 0 \<longleftrightarrow> d mod (2 * h) = h"
proof -
  let ?r = "d mod (2 * h)"
  have r: "0 \<le> ?r" "?r < 2 * h"
    using assms by simp_all
  have eq: "(d + h) mod (2 * h) = (?r + h) mod (2 * h)"
    by (simp add: mod_add_left_eq)
  show ?thesis
  proof (cases "?r < h")
    case True
    then have "(?r + h) mod (2 * h) = ?r + h"
      using r by simp
    with True r assms eq show ?thesis
      by linarith
  next
    case False
    have "(?r + h) mod (2 * h) = (?r + h - 2 * h) mod (2 * h)"
      by (metis mod_diff_right_eq mod_self diff_zero)
    also have "\<dots> = ?r + h - 2 * h"
      using False r by simp
    finally show ?thesis
      using eq False r assms by linarith
  qed
qed

lemma opposite_roundings:
  fixes d h :: int
  assumes "0 < h"
  shows "((2 * d + 2 * h) div (4 * h) = - ((2 * (- d) + 2 * h) div (4 * h)))
     \<longleftrightarrow> d mod (2 * h) \<noteq> h"
proof -
  let ?y = "d + h"
  have l: "(2 * d + 2 * h) div (4 * h) = ?y div (2 * h)"
  proof -
    have "(2 * d + 2 * h) div (4 * h) = (2 * ?y) div (2 * (2 * h))"
      by (simp add: algebra_simps)
    also have "\<dots> = ?y div (2 * h)"
      by (rule div_mult_mult1) simp
    finally show ?thesis .
  qed
  have r: "(2 * (- d) + 2 * h) div (4 * h) = (- ?y) div (2 * h) + 1"
  proof -
    have "(2 * (- d) + 2 * h) div (4 * h) = (2 * (- ?y + 2 * h)) div (2 * (2 * h))"
      by (simp add: algebra_simps)
    also have "\<dots> = (- ?y + 2 * h) div (2 * h)"
      by (rule div_mult_mult1) simp
    also have "\<dots> = (- ?y) div (2 * h) + 1"
      using assms div_add_self2 [of "2 * h" "- ?y"] by simp
    finally show ?thesis .
  qed
  have n: "(- ?y) div (2 * h) =
      (if ?y mod (2 * h) = 0 then - (?y div (2 * h)) else - (?y div (2 * h)) - 1)"
    using assms by (intro zdiv_zminus1_eq_if) simp
  have "((2 * d + 2 * h) div (4 * h) = - ((2 * (- d) + 2 * h) div (4 * h)))
     \<longleftrightarrow> ?y mod (2 * h) \<noteq> 0"
    unfolding l r n by (simp split: if_splits)
  then show ?thesis
    using half_shift_mod [OF assms, of d] by simp
qed

text \<open>Where the code agrees with the specification's rounding: below \<open>2^53\<close> ms everywhere
  but at a tie of a negative difference.\<close>

lemma daysDifference_spec_agrees:
  assumes "\<bar>second - first\<bar> < 2 ^ 53"
    and "0 \<le> second - first \<or> (second - first) mod 86400000 \<noteq> 43200000"
  shows "daysDifference (Date_at first) (Date_at second)
     = Finite (of_int (daysDifference_spec first second))"
proof (cases "0 \<le> second - first")
  case True
  then show ?thesis
    by (simp add: daysDifference_div [OF assms(1)] daysDifference_spec_div)
next
  case False
  with assms have "(second - first) mod 86400000 \<noteq> 43200000"
    by simp
  then have "(2 * (second - first) + 86400000) div 172800000
      = - ((2 * (- (second - first)) + 86400000) div 172800000)"
    using opposite_roundings [of 43200000 "second - first"] by simp
  with False show ?thesis
    by (simp only: daysDifference_div [OF assms(1)] daysDifference_spec_div if_False)
qed

text \<open>At a tie the two differences add up to one day.\<close>

lemma daysDifference_at_tie:
  assumes "\<bar>b - a\<bar> < 2 ^ 53" and "(b - a) mod 86400000 = 43200000"
  shows "daysDifference (Date_at a) (Date_at b) = Finite (of_int ((b - a) div 86400000 + 1))
     \<and> daysDifference (Date_at b) (Date_at a) = Finite (of_int (- ((b - a) div 86400000)))"
proof -
  define k where "k = (b - a) div 86400000"
  have swapped: "\<bar>a - b\<bar> < 2 ^ 53"
    using assms(1) by simp
  have k: "b - a = 86400000 * k + 43200000"
    using assms(2) mult_div_mod_eq [of 86400000 "b - a"] by (simp add: k_def)
  have "(2 * (b - a) + 86400000) div 172800000 = k + 1"
    unfolding k by simp
  moreover have "(2 * (a - b) + 86400000) div 172800000 = - k"
  proof -
    have "a - b = - (86400000 * k + 43200000)"
      using k by simp
    then show ?thesis
      by simp
  qed
  ultimately show ?thesis
    by (simp only: daysDifference_div [OF assms(1)] daysDifference_div [OF swapped] k_def)
qed

text \<open>
  \<^bold>\<open>Claim C5\<close>, as amended. For every pair of valid dates \<open>a\<close> and \<open>b\<close> less than \<open>2^53\<close> ms
  apart, \<^verbatim>\<open>daysDifference(a, b) == -daysDifference(b, a)\<close> holds exactly when the
  millisecond difference is not an odd multiple of half a day (43,200,000 ms).
\<close>

theorem daysDifference_antisymmetric_iff:
  assumes "\<bar>b - a\<bar> < 2 ^ 53"
  shows "num_eq (daysDifference (Date_at a) (Date_at b))
          (num_neg (daysDifference (Date_at b) (Date_at a)))
   \<longleftrightarrow> (b - a) mod 86400000 \<noteq> 43200000"
proof -
  have swapped: "\<bar>a - b\<bar> < 2 ^ 53"
    using assms by simp
  have "a - b = - (b - a)"
    by simp
  then have "num_eq (daysDifference (Date_at a) (Date_at b))
          (num_neg (daysDifference (Date_at b) (Date_at a)))
    \<longleftrightarrow> (2 * (b - a) + 86400000) div 172800000
         = - ((2 * (- (b - a)) + 86400000) div 172800000)"
    by (simp only: daysDifference_div [OF assms] daysDifference_div [OF swapped]
        num_neg.simps num_eq.simps number.inject of_int_minus [symmetric] of_int_eq_iff)
  also have "\<dots> \<longleftrightarrow> (b - a) mod 86400000 \<noteq> 43200000"
    using opposite_roundings [of 43200000 "b - a"] by simp
  finally show ?thesis .
qed

theorem daysDifference_antisymmetric_iff_witness:
  "\<bar>86400000 - 0\<bar> < (2::int) ^ 53
   \<and> num_eq (daysDifference (Date_at 0) (Date_at 86400000))
          (num_neg (daysDifference (Date_at 86400000) (Date_at 0)))"
proof -
  have near: "\<bar>86400000 - 0\<bar> < (2::int) ^ 53"
    by simp
  from daysDifference_antisymmetric_iff [OF near] show ?thesis
    by simp
qed

text \<open>The claim as stated fails one and a half days apart, where the two calls return \<open>2\<close>
  and \<open>-1\<close>; for an invalid date, where both return \<open>NaN\<close>; and for the two dates of
  \<open>daysDifference_far_apart\<close>, which are no tie and for which the two calls return
  104249993 and -104249992.\<close>

theorem daysDifference_antisymmetric_counterexample:
  "daysDifference (Date_at 0) (Date_at 129600000) = Finite 2
   \<and> daysDifference (Date_at 129600000) (Date_at 0) = Finite (- 1)
   \<and> \<not> num_eq (daysDifference (Date_at 0) (Date_at 129600000))
            (num_neg (daysDifference (Date_at 129600000) (Date_at 0)))
   \<and> \<not> num_eq (daysDifference (Date NaN) (Date_at 0))
            (num_neg (daysDifference (Date_at 0) (Date NaN)))
   \<and> \<not> num_eq (daysDifference (Date_at (- 8640000000000000)) (Date_at 367199351999999))
            (num_neg (daysDifference (Date_at 367199351999999)
               (Date_at (- 8640000000000000))))"
  by (simp add: daysDifference_div daysDifference_invalid daysDifference_far_apart)

section \<open>The staleness evaluator\<close>

lemma num_gt_irrefl: "\<not> num_gt x x"
  by (cases x) simp_all

lemma example_days:
  "daysDifference (Date (Finite 1793577600000)) (Date_at (clock example_world)) = Finite 1"
proof -
  have "clock example_world = 1793664000000"
    by (simp add: example_world_def)
  then show ?thesis
    using daysDifference_div [where a = 1793577600000 and b = 1793664000000]
    by (simp add: Date_at_def)
qed

text \<open>
  \<^bold>\<open>Claim C2\<close>. For every threshold \<open>T\<close> and every \<open>dataAsOf\<close> that the runtime converts to
  a date and to a string, \<^verbatim>\<open>getFileStaleResult(dataAsOf, T)\<close> returns an object whose
  \<open>stale\<close> flag is true if and only if \<^verbatim>\<open>daysDifference(new Date(dataAsOf), new Date()) > T\<close>;
  when the day difference equals \<open>T\<close> the flag is false; and in both branches the object
  carries a result with a non-empty message, which is the one of the branch taken.
\<close>

theorem getFileStaleResult_stale_iff:
  assumes "Date_new w dataAsOf = Inr t" and "ToString w dataAsOf = Inr s"
  shows "\<exists>r. getFileStaleResult w dataAsOf T = Inr r
     \<and> (stale r \<longleftrightarrow> num_gt (daysDifference (Date t) (Date_at (clock w))) T)
     \<and> (daysDifference (Date t) (Date_at (clock w)) = T \<longrightarrow> \<not> stale r)
     \<and> (\<exists>m. result r = Some \<lparr>message = m\<rparr> \<and> m \<noteq> [])
     \<and> result r = Some \<lparr>message =
          (if stale r
           then ''The Prebid currency rates conversion data has a stale timestamp of ''
                @ s @ ''. Please check the generator logs for failures: ''
                @ ''https://console.aws.amazon.com/cloudwatch/home?region=us-east-1#logStream:group=/aws/lambda/prebidCurrencyRatesFileGenerator;streamFilter=typeLogStreamPrefix''
           else ''The Prebid currency rates conversion data has a timestamp of ''
                @ s @ '', found not to be stale.'')\<rparr>"
proof (cases "num_gt (daysDifference (Date t) (Date_at (clock w))) T")
  case True
  then have "daysDifference (Date t) (Date_at (clock w)) \<noteq> T"
    using num_gt_irrefl by auto
  with True assms show ?thesis
    by (simp add: getFileStaleResult_def createResult_def)
next
  case False
  with assms show ?thesis
    by (simp add: getFileStaleResult_def createResult_def)
qed

text \<open>At the boundary: the file is one day old and the threshold is one day.\<close>

theorem getFileStaleResult_stale_iff_witness:
  "\<exists>r. getFileStaleResult example_world (String ''2026-11-02'') (Finite 1) = Inr r
     \<and> \<not> stale r
     \<and> daysDifference (Date (Finite 1793577600000)) (Date_at (clock example_world)) = Finite 1
     \<and> result r = Some \<lparr>message =
         ''The Prebid currency rates conversion data has a timestamp of 2026-11-02, found not to be stale.''\<rparr>"
proof -
  have d: "Date_new example_world (String ''2026-11-02'') = Inr (Finite 1793577600000)"
    by (simp add: example_world_def example_Date_new_def)
  have s: "ToString example_world (String ''2026-11-02'') = Inr ''2026-11-02''"
    by (simp add: example_world_def example_ToString_def)
  from getFileStaleResult_stale_iff [OF d s, of "Finite 1"] obtain r where
    r: "getFileStaleResult example_world (String ''2026-11-02'') (Finite 1) = Inr r"
      "stale r \<longleftrightarrow> num_gt (daysDifference (Date (Finite 1793577600000))
          (Date_at (clock example_world))) (Finite 1)"
      "result r = Some \<lparr>message =
          (if stale r
           then ''The Prebid currency rates conversion data has a stale timestamp of ''
                @ ''2026-11-02'' @ ''. Please check the generator logs for failures: ''
                @ ''https://console.aws.amazon.com/cloudwatch/home?region=us-east-1#logStream:group=/aws/lambda/prebidCurrencyRatesFileGenerator;streamFilter=typeLogStreamPrefix''
           else ''The Prebid currency rates conversion data has a timestamp of ''
                @ ''2026-11-02'' @ '', found not to be stale.'')\<rparr>"
    by blast
  from r(2) have "\<not> stale r"
    by (simp add: example_days)
  with r(1) r(3) example_days show ?thesis
    by simp
qed

section \<open>Configuration and the mail request\<close>

lemma env_or_nonempty: "dflt \<noteq> [] \<Longrightarrow> env_or w name dflt \<noteq> []"
  by (simp add: env_or_def split: option.splits)

lemma getters_nonempty:
  "getBucket w \<noteq> []" "getFilename w \<noteq> []" "getAlertFrom w \<noteq> []" "getAlertTo w \<noteq> []"
  by (simp_all add: getBucket_def getFilename_def getAlertFrom_def getAlertTo_def
      env_or_nonempty)

lemma getAlertSubject_truthy: "ToBoolean (getAlertSubject w)"
  by (simp add: getAlertSubject_def Let_def)

text \<open>Whatever \<^verbatim>\<open>parseFloat\<close> returns, a string that \<^verbatim>\<open>getAlertSubject\<close> returns is the
  default.\<close>

lemma getAlertSubject_text_is_default:
  "getAlertSubject w = String s \<Longrightarrow> s = ''ALERT: Prebid Currency Rates File Monitor''"
  by (simp add: getAlertSubject_def Let_def split: if_splits)

text \<open>
  \<^bold>\<open>Claim C6\<close> says that \<^verbatim>\<open>getAlertSubject\<close> returns the value of \<^verbatim>\<open>ALERT_SUBJECT\<close> when it is
  set. The code passes the value through \<^verbatim>\<open>parseFloat\<close>: with \<^verbatim>\<open>ALERT_SUBJECT\<close> set to
  \<^verbatim>\<open>Currency alert\<close>, \<^verbatim>\<open>parseFloat\<close> gives \<open>NaN\<close> and the default subject is returned.
\<close>

theorem getAlertSubject_ignores_text:
  "process_env world_subject_set ''ALERT_SUBJECT'' = Some ''Currency alert''
   \<and> getAlertSubject world_subject_set = String ''ALERT: Prebid Currency Rates File Monitor''
   \<and> getAlertSubject world_subject_set \<noteq> String ''Currency alert''"
  by (simp add: getAlertSubject_def world_subject_set_def example_world_def env_text_def
      example_parseFloat_def)

lemma jsval_not_own_array: "v \<noteq> Array [v]"
proof
  assume "v = Array [v]"
  then have "size v = size (Array [v])"
    by (rule arg_cong)
  then show False
    by simp
qed

text \<open>Whenever \<^verbatim>\<open>createSendEmailParams\<close> returns a request, its destination is the
  recipient itself and its reply-to list is an array.\<close>

lemma createSendEmailParams_fields:
  "createSendEmailParams config = (evs, Some p) \<Longrightarrow>
     ToAddresses p = Get (Object config) ''alertTo''
     \<and> ToAddresses p \<noteq> Array [Get (Object config) ''alertTo'']
     \<and> ReplyToAddresses p = Array [Get (Object config) ''alertReplyTo'']"
  by (auto simp: createSendEmailParams_def jsval_not_own_array split: prod.splits bool.splits)

lemma createSendEmailParams_missing:
  "createSendEmailParams (example_config[1 := (''alertSubject'', String [])]) =
     ([ConsoleError
         (String ''Error: missing required argument for createSendEmailParams:alertSubject'')
         Undefined], None)"
  by (simp add: createSendEmailParams_def example_config_def logError_def)

text \<open>
  \<^bold>\<open>Claim C7\<close> says that the destination of the request is an array containing the
  recipient. For a configuration with all five fields set, the code returns a request
  whose \<^verbatim>\<open>Destination.ToAddresses\<close> is the recipient string itself, not an array, while
  \<^verbatim>\<open>ReplyToAddresses\<close> is an array; subject and body carry the charset UTF-8.
\<close>

theorem createSendEmailParams_destination_not_array:
  "createSendEmailParams example_config =
     ([], Some \<lparr>ToAddresses = String ''alerts@prebid.org'',
                Subject_Data = String ''ALERT: Prebid Currency Rates File Monitor'',
                Subject_Charset = ''UTF-8'',
                Body_Text_Data = String ''stale'',
                Body_Text_Charset = ''UTF-8'',
                Source = String ''alerts@prebid.org'',
                ReplyToAddresses = Array [String ''alerts@prebid.org'']\<rparr>)
   \<and> (\<exists>p. snd (createSendEmailParams example_config) = Some p
          \<and> ToAddresses p \<noteq> Array [Get (Object example_config) ''alertTo''])"
  by (simp add: createSendEmailParams_def example_config_def)

lemma createSendEmailParams_alert:
  assumes "message r \<noteq> []"
  shows "createSendEmailParams
          [(''alertTo'', String (getAlertTo w)),
           (''alertSubject'', getAlertSubject w),
           (''alertFrom'', String (getAlertFrom w)),
           (''alertReplyTo'', String (getAlertFrom w)),
           (''message'', String (message r))] = ([], Some (alert_request w r))"
  using assms
  by (simp add: createSendEmailParams_def alert_request_def getters_nonempty
      getAlertSubject_truthy)

section \<open>Sending the alert\<close>

lemma sendAlert_sends:
  assumes "message r \<noteq> []"
  shows "sendAlert w (Some r) (Some c) =
     SesSendEmail (alert_request w r)
     # (case ses_sendEmail w (alert_request w r) of
          Inl e \<Rightarrow> sendEmailCallback w r c (Some e) None
        | Inr d \<Rightarrow> sendEmailCallback w r c None (Some d))"
  by (simp add: sendAlert_def createSendEmailParams_alert [OF assms] sendEmailHandler_def)

lemma filter_done_callback:
  "filter is_done (sendEmailCallback w r c err data) = [ContextDone c Null r]"
  by (simp add: sendEmailCallback_def logError_def log_def split: option.splits)

lemma filter_alert_callback:
  "filter is_alert (sendEmailCallback w r c err data) = []"
  by (simp add: sendEmailCallback_def logError_def log_def split: option.splits)

text \<open>
  \<^bold>\<open>Claim C9\<close>. For every result and every outcome of the mail-send call, the callback that
  \<^verbatim>\<open>sendEmailHandler\<close> returns calls \<^verbatim>\<open>context.done\<close> exactly once, with a null error and the
  result it was built with. On a send error it logs the error and does nothing else; on
  success it logs the alert when debugging is on.
\<close>

theorem sendEmailCallback_completes_once:
  "sendEmailCallback w res c (Some e) data =
     [ConsoleError (error_object e) (String (err_stack e)), ContextDone c Null res]
   \<and> sendEmailCallback w res c None data =
       log w (String (''Alert '' @ [CHR 0x27] @ message res @ [CHR 0x27] @ '' sent. ''))
       @ [ContextDone c Null res]
   \<and> filter is_done (sendEmailCallback w res c err data) = [ContextDone c Null res]
   \<and> done_count (sendEmailCallback w res c err data) = 1
   \<and> sendEmailHandler w (Some res) (Some c) = ([], Some (sendEmailCallback w res c))"
  by (simp add: filter_done_callback done_count_def sendEmailHandler_def)
     (simp add: sendEmailCallback_def logError_def)

text \<open>The mail service fails after a stale determination.\<close>

theorem sendEmailCallback_completes_once_witness:
  "sendEmailCallback world_send_fails \<lparr>message = ''stale''\<rparr> example_context
      (Some (AWSError ''throttled'' ''Throttling: throttled'')) None =
     [ConsoleError (error_object (AWSError ''throttled'' ''Throttling: throttled''))
        (String (err_stack (AWSError ''throttled'' ''Throttling: throttled''))),
      ContextDone example_context Null \<lparr>message = ''stale''\<rparr>]"
  using sendEmailCallback_completes_once [of world_send_fails "\<lparr>message = ''stale''\<rparr>"
      example_context "AWSError ''throttled'' ''Throttling: throttled''" None]
  by (rule conjunct1)

lemma loadError_events:
  "currencyRatesLoadError w err (Some c) =
       [ConsoleError (error_object err) (String (err_stack err)),
        SesSendEmail (alert_request w
          (createResult (''Error reading currency rates file from S3: '' @ err_message err)))]
       @ (case ses_sendEmail w (alert_request w
              (createResult (''Error reading currency rates file from S3: ''
                 @ err_message err))) of
            Inl e \<Rightarrow> sendEmailCallback w
              (createResult (''Error reading currency rates file from S3: '' @ err_message err))
              c (Some e) None
          | Inr d \<Rightarrow> sendEmailCallback w
              (createResult (''Error reading currency rates file from S3: '' @ err_message err))
              c None (Some d))"
proof -
  have "message (createResult (''Error reading currency rates file from S3: ''
      @ err_message err)) \<noteq> []"
    by (simp add: createResult_def)
  from sendAlert_sends [OF this, of w c] show ?thesis
    by (simp add: currencyRatesLoadError_def logError_def)
qed

lemma loadError_done:
  "filter is_done (currencyRatesLoadError w err (Some c)) =
     [ContextDone c Null
        (createResult (''Error reading currency rates file from S3: '' @ err_message err))]"
  unfolding loadError_events by (simp add: filter_done_callback split: sum.splits)

lemma loadError_alert:
  "alert_count (currencyRatesLoadError w err (Some c)) = 1"
  unfolding loadError_events
  by (simp add: alert_count_def filter_alert_callback split: sum.splits)

text \<open>
  \<^bold>\<open>Claim C8\<close>. For every fetch error \<open>err\<close>, \<^verbatim>\<open>currencyRatesLoadError\<close> logs the error, builds the
  result whose message is \<^verbatim>\<open>Error reading currency rates file from S3: \<close> followed by
  \<^verbatim>\<open>err.message\<close>, and sends one alert whose body is that message; the callback of the
  request is the one built for that result, so the completion callback receives it.
\<close>

theorem currencyRatesLoadError_alerts:
  fixes w :: world and err :: AWSError and c :: LambdaContext
  defines "res \<equiv>
    createResult (''Error reading currency rates file from S3: '' @ err_message err)"
  shows "currencyRatesLoadError w err (Some c) =
       [ConsoleError (error_object err) (String (err_stack err)),
        SesSendEmail (alert_request w res)]
       @ (case ses_sendEmail w (alert_request w res) of
            Inl e \<Rightarrow> sendEmailCallback w res c (Some e) None
          | Inr d \<Rightarrow> sendEmailCallback w res c None (Some d))
     \<and> message res = ''Error reading currency rates file from S3: '' @ err_message err
     \<and> Body_Text_Data (alert_request w res) =
         String (''Error reading currency rates file from S3: '' @ err_message err)
     \<and> alert_count (currencyRatesLoadError w err (Some c)) = 1
     \<and> filter is_done (currencyRatesLoadError w err (Some c)) = [ContextDone c Null res]"
proof -
  have events: "currencyRatesLoadError w err (Some c) =
       [ConsoleError (error_object err) (String (err_stack err)),
        SesSendEmail (alert_request w res)]
       @ (case ses_sendEmail w (alert_request w res) of
            Inl e \<Rightarrow> sendEmailCallback w res c (Some e) None
          | Inr d \<Rightarrow> sendEmailCallback w res c None (Some d))"
    unfolding res_def by (rule loadError_events)
  have msg: "message res = ''Error reading currency rates file from S3: '' @ err_message err"
    by (simp add: res_def createResult_def)
  then have body: "Body_Text_Data (alert_request w res) =
      String (''Error reading currency rates file from S3: '' @ err_message err)"
    by (simp add: alert_request_def)
  have once: "alert_count (currencyRatesLoadError w err (Some c)) = 1"
    by (rule loadError_alert)
  have completes: "filter is_done (currencyRatesLoadError w err (Some c))
      = [ContextDone c Null res]"
    unfolding res_def by (rule loadError_done)
  from events msg body once completes show ?thesis
    by (intro conjI)
qed

text \<open>The fetch error \<^verbatim>\<open>access denied\<close>.\<close>

theorem currencyRatesLoadError_alerts_witness:
  "message (createResult (''Error reading currency rates file from S3: ''
       @ err_message (AWSError ''access denied'' ''AccessDenied: access denied'')))
     = ''Error reading currency rates file from S3: access denied''
   \<and> alert_count (currencyRatesLoadError example_world
        (AWSError ''access denied'' ''AccessDenied: access denied'') (Some example_context)) = 1
   \<and> filter is_done (currencyRatesLoadError example_world
        (AWSError ''access denied'' ''AccessDenied: access denied'') (Some example_context))
      = [ContextDone example_context Null
           \<lparr>message = ''Error reading currency rates file from S3: access denied''\<rparr>]"
  using currencyRatesLoadError_alerts [of example_world
      "AWSError ''access denied'' ''AccessDenied: access denied''" example_context,
      THEN conjunct2, THEN conjunct2, THEN conjunct2]
  by (simp add: createResult_def)

section \<open>Loading the file\<close>

lemma loadSuccess_falsy:
  "JSON_parse w (Body data) = Some v \<Longrightarrow> \<not> ToBoolean v \<Longrightarrow>
     currencyRatesLoadSuccess w data context = ([], Inr ())"
  by (simp add: currencyRatesLoadSuccess_def parseJson_def)

lemma loadSuccess_malformed:
  "JSON_parse w (Body data) = None \<Longrightarrow>
     currencyRatesLoadSuccess w data context =
       ([ConsoleError (String ''Error: malformed json:'') (String (Body data))], Inr ())"
  by (simp add: currencyRatesLoadSuccess_def parseJson_def logError_def)

text \<open>In a world without a global \<^verbatim>\<open>getStaleOlderThanDays\<close>, every body that parses to a
  truthy value ends \<^verbatim>\<open>currencyRatesLoadSuccess\<close> with a ReferenceError, before the file date
  is looked at.\<close>

lemma loadSuccess_throws:
  assumes "JSON_parse w (Body data) = Some v" and "ToBoolean v"
    and "global_call w ''getStaleOlderThanDays'' = None"
  shows "currencyRatesLoadSuccess w data context =
     ([], Inl (ReferenceError ''getStaleOlderThanDays is not defined''))"
  using assms by (simp add: currencyRatesLoadSuccess_def parseJson_def)

text \<open>
  \<^bold>\<open>Claim C10\<close>. For every fetched body that is valid JSON whose top-level value is falsy
  (\<^verbatim>\<open>null\<close>, \<^verbatim>\<open>false\<close>, \<^verbatim>\<open>0\<close> and the empty string are), \<^verbatim>\<open>currencyRatesLoadSuccess\<close> returns
  with no event at all: no alert, no completion callback, no error line. For a body that is
  not JSON it returns after one error line, and nothing else.
\<close>

theorem currencyRatesLoadSuccess_falsy_silent:
  "(JSON_parse w (Body data) = Some v \<and> \<not> ToBoolean v
      \<longrightarrow> currencyRatesLoadSuccess w data context = ([], Inr ()))
   \<and> (JSON_parse w (Body data) = None
      \<longrightarrow> currencyRatesLoadSuccess w data context =
           ([ConsoleError (String ''Error: malformed json:'') (String (Body data))], Inr ()))
   \<and> \<not> ToBoolean Null \<and> \<not> ToBoolean (Boolean False)
   \<and> \<not> ToBoolean (Number (Finite 0)) \<and> \<not> ToBoolean (String [])"
  by (simp add: loadSuccess_falsy loadSuccess_malformed)

theorem currencyRatesLoadSuccess_falsy_silent_witness:
  "JSON_parse example_world (Body \<lparr>Body = ''null''\<rparr>) = Some Null \<and> \<not> ToBoolean Null
   \<and> currencyRatesLoadSuccess example_world \<lparr>Body = ''null''\<rparr> (Some example_context)
       = ([], Inr ())
   \<and> JSON_parse example_world (Body \<lparr>Body = ''not json''\<rparr>) = None
   \<and> currencyRatesLoadSuccess example_world \<lparr>Body = ''not json''\<rparr> (Some example_context) =
       ([ConsoleError (String ''Error: malformed json:'') (String ''not json'')], Inr ())"
proof -
  have p1: "JSON_parse example_world (Body \<lparr>Body = ''null''\<rparr>) = Some Null"
    by (simp add: example_world_def example_JSON_parse_def)
  have p2: "JSON_parse example_world (Body \<lparr>Body = ''not json''\<rparr>) = None"
    by (simp add: example_world_def example_JSON_parse_def example_file_def)
  show ?thesis
    using p1 p2
      currencyRatesLoadSuccess_falsy_silent [of example_world "\<lparr>Body = ''null''\<rparr>" Null
        "Some example_context"]
      currencyRatesLoadSuccess_falsy_silent [of example_world "\<lparr>Body = ''not json''\<rparr>" Null
        "Some example_context"]
    by simp
qed

text \<open>
  \<^bold>\<open>Claim C1\<close> says that a parsed record that is not stale ends the invocation with the
  completion callback and the message "found not to be stale". The file of the example
  world is one day old, and \<^verbatim>\<open>getFileStaleResult\<close> with the configured threshold of two days
  finds it not stale; \<^verbatim>\<open>currencyRatesLoadSuccess\<close> never gets there: it throws the
  ReferenceError of \<^verbatim>\<open>getStaleOlderThanDays()\<close> and causes no event, so the completion
  callback is not called.
\<close>

theorem currencyRatesLoadSuccess_not_stale_throws:
  "JSON_parse example_world example_file
     = Some (Object [(''dataAsOf'', String ''2026-11-02'')])
   \<and> getFileStaleResult example_world (String ''2026-11-02'')
        (getStaleOlderThanDays example_world)
       = Inr \<lparr>stale = False, result = Some \<lparr>message =
           ''The Prebid currency rates conversion data has a timestamp of 2026-11-02, found not to be stale.''\<rparr>\<rparr>
   \<and> currencyRatesLoadSuccess example_world \<lparr>Body = example_file\<rparr> (Some example_context) =
       ([], Inl (ReferenceError ''getStaleOlderThanDays is not defined''))"
proof -
  have p: "JSON_parse example_world example_file
      = Some (Object [(''dataAsOf'', String ''2026-11-02'')])"
    by (simp add: example_world_def example_JSON_parse_def example_file_def)
  have t: "getStaleOlderThanDays example_world = Finite 2"
    by (simp add: getStaleOlderThanDays_def example_world_def env_text_def
        example_parseFloat_def)
  have g: "getFileStaleResult example_world (String ''2026-11-02'') (Finite 2)
       = Inr \<lparr>stale = False, result = Some \<lparr>message =
           ''The Prebid currency rates conversion data has a timestamp of 2026-11-02, found not to be stale.''\<rparr>\<rparr>"
    using example_days
    by (simp add: getFileStaleResult_def example_world_def example_Date_new_def
        example_ToString_def createResult_def)
  have l: "currencyRatesLoadSuccess example_world \<lparr>Body = example_file\<rparr>
      (Some example_context) =
       ([], Inl (ReferenceError ''getStaleOlderThanDays is not defined''))"
    by (rule loadSuccess_throws [where v = "Object [(''dataAsOf'', String ''2026-11-02'')]"])
       (simp_all add: p, simp add: example_world_def)
  show ?thesis
    using p g l by (simp only: t simp_thms)
qed

section \<open>One invocation\<close>

text \<open>Bucket and key are never missing: both getters fall back to a non-empty default.\<close>

lemma createS3GetObjectParams_configured:
  "createS3GetObjectParams (String (getBucket w)) (String (getFilename w)) =
     ([], Some \<lparr>Bucket = String (getBucket w), Key = String (getFilename w)\<rparr>)"
  by (simp add: createS3GetObjectParams_def getters_nonempty)

lemma createS3GetObjectParams_missing:
  "createS3GetObjectParams (String []) key =
     ([ConsoleError (String ''Error: missing argument for createS3GetObjectParams'')
         (Array [String [], key])], None)"
  "createS3GetObjectParams bucket Undefined =
     ([ConsoleError (String ''Error: missing argument for createS3GetObjectParams'')
         (Array [bucket, Undefined])], None)"
  by (simp_all add: createS3GetObjectParams_def logError_def)

lemma handler_no_context:
  "handler w event None =
     (log w (String (''Event: '' @ JSON_stringify w event))
      @ [ConsoleError (String ''Error: invalid arguments for s3GetObjectHandler'') Undefined],
      Inr ())"
  by (simp add: handler_def createS3GetObjectParams_configured s3GetObjectHandler_def
      logError_def)

lemma handler_context:
  "handler w event (Some c) =
     (case (case s3_getObject w
                   \<lparr>Bucket = String (getBucket w), Key = String (getFilename w)\<rparr> of
              Inl err \<Rightarrow> (currencyRatesLoadError w err (Some c), Inr ())
            | Inr data \<Rightarrow> currencyRatesLoadSuccess w data (Some c)) of
        (evs, outcome) \<Rightarrow>
          (log w (String (''Event: '' @ JSON_stringify w event))
           @ [S3GetObject \<lparr>Bucket = String (getBucket w), Key = String (getFilename w)\<rparr>]
           @ evs, outcome))"
  by (simp add: handler_def createS3GetObjectParams_configured s3GetObjectHandler_def
      s3GetObjectCallback_def split: sum.splits)

lemma done_count_log: "done_count (log w line @ evs) = done_count evs"
  by (simp add: done_count_def log_def)

text \<open>
  \<^bold>\<open>Claim C3\<close>, as amended. An invocation whose fetch fails calls the completion callback
  exactly once and returns. An invocation without a context, one whose fetched body is
  not JSON, and one whose fetched body is JSON with a falsy top-level value return without
  calling it. (Nothing is said here of a body that parses to a truthy value.)
\<close>

theorem handler_completion_paths:
  fixes w :: world
  defines "request \<equiv> \<lparr>Bucket = String (getBucket w), Key = String (getFilename w)\<rparr>"
  shows "done_count (fst (handler w event None)) = 0
     \<and> (s3_getObject w request = Inl err
          \<longrightarrow> done_count (fst (handler w event (Some c))) = 1
              \<and> snd (handler w event (Some c)) = Inr ())
     \<and> (s3_getObject w request = Inr data \<and> JSON_parse w (Body data) = None
          \<longrightarrow> done_count (fst (handler w event (Some c))) = 0
              \<and> snd (handler w event (Some c)) = Inr ())
     \<and> (s3_getObject w request = Inr data \<and> JSON_parse w (Body data) = Some v
          \<and> \<not> ToBoolean v
          \<longrightarrow> done_count (fst (handler w event (Some c))) = 0
              \<and> snd (handler w event (Some c)) = Inr ())"
proof -
  have none: "done_count (fst (handler w event None)) = 0"
    by (simp add: handler_no_context done_count_log) (simp add: done_count_def)
  have err: "done_count (fst (handler w event (Some c))) = 1
      \<and> snd (handler w event (Some c)) = Inr ()"
    if "s3_getObject w request = Inl err"
    using that unfolding request_def
    by (simp add: handler_context done_count_log) (simp add: done_count_def loadError_done)
  have malformed: "done_count (fst (handler w event (Some c))) = 0
      \<and> snd (handler w event (Some c)) = Inr ()"
    if "s3_getObject w request = Inr data" "JSON_parse w (Body data) = None"
    using that unfolding request_def
    by (simp add: handler_context done_count_log loadSuccess_malformed)
       (simp add: done_count_def)
  have falsy: "done_count (fst (handler w event (Some c))) = 0
      \<and> snd (handler w event (Some c)) = Inr ()"
    if "s3_getObject w request = Inr data" "JSON_parse w (Body data) = Some v"
      "\<not> ToBoolean v"
    using that unfolding request_def
    by (simp add: handler_context done_count_log loadSuccess_falsy) (simp add: done_count_def)
  show ?thesis
    using none err malformed falsy by blast
qed

theorem handler_completion_paths_witness:
  "done_count (fst (handler example_world (Object []) None)) = 0
   \<and> done_count (fst (handler world_access_denied (Object []) (Some example_context))) = 1
   \<and> done_count (fst (handler world_malformed_body (Object []) (Some example_context))) = 0
   \<and> done_count (fst (handler world_null_body (Object []) (Some example_context))) = 0"
proof -
  have a: "s3_getObject world_access_denied
      \<lparr>Bucket = String (getBucket world_access_denied),
       Key = String (getFilename world_access_denied)\<rparr>
     = Inl (AWSError ''access denied'' ''AccessDenied: access denied'')"
    by (simp add: world_access_denied_def)
  have m: "s3_getObject world_malformed_body
      \<lparr>Bucket = String (getBucket world_malformed_body),
       Key = String (getFilename world_malformed_body)\<rparr>
     = Inr \<lparr>Body = ''not json''\<rparr>
     \<and> JSON_parse world_malformed_body (Body \<lparr>Body = ''not json''\<rparr>) = None"
    by (simp add: world_malformed_body_def example_world_def example_JSON_parse_def
        example_file_def)
  have n: "s3_getObject world_null_body
      \<lparr>Bucket = String (getBucket world_null_body),
       Key = String (getFilename world_null_body)\<rparr>
     = Inr \<lparr>Body = ''null''\<rparr>
     \<and> JSON_parse world_null_body (Body \<lparr>Body = ''null''\<rparr>) = Some Null
     \<and> \<not> ToBoolean Null"
    by (simp add: world_null_body_def example_world_def example_JSON_parse_def)
  show ?thesis
    using a m n
      handler_completion_paths [of example_world "Object []"]
      handler_completion_paths [of world_access_denied "Object []"
        "AWSError ''access denied'' ''AccessDenied: access denied''" example_context]
      handler_completion_paths [of world_malformed_body "Object []" _ example_context
        "\<lparr>Body = ''not json''\<rparr>"]
      handler_completion_paths [of world_null_body "Object []" _ example_context
        "\<lparr>Body = ''null''\<rparr>" Null]
    by blast
qed

text \<open>The claim as stated fails for the body \<^verbatim>\<open>null\<close>: the context is there, the fetch
  succeeds and the body parses, and the invocation returns after the request to S3 without
  calling the completion callback.\<close>

theorem handler_falsy_body_counterexample:
  "s3_getObject world_null_body
       \<lparr>Bucket = String ''currency.prebid.org'', Key = String ''latest.json''\<rparr>
     = Inr \<lparr>Body = ''null''\<rparr>
   \<and> JSON_parse world_null_body ''null'' = Some Null
   \<and> handler world_null_body (Object []) (Some example_context) =
       ([ConsoleLog (String ''Event: {}''),
         S3GetObject \<lparr>Bucket = String ''currency.prebid.org'', Key = String ''latest.json''\<rparr>],
        Inr ())
   \<and> done_count (fst (handler world_null_body (Object []) (Some example_context))) = 0"
proof -
  have g: "getBucket world_null_body = ''currency.prebid.org''"
    "getFilename world_null_body = ''latest.json''"
    "getDebug world_null_body"
    "JSON_stringify world_null_body (Object []) = ''{}''"
    by (simp_all add: getBucket_def getFilename_def getDebug_def env_or_def
        world_null_body_def example_world_def)
  have s: "s3_getObject world_null_body
       \<lparr>Bucket = String ''currency.prebid.org'', Key = String ''latest.json''\<rparr>
     = Inr \<lparr>Body = ''null''\<rparr>"
    by (simp add: world_null_body_def)
  have p: "JSON_parse world_null_body ''null'' = Some Null"
    by (simp add: world_null_body_def example_world_def example_JSON_parse_def)
  have h: "handler world_null_body (Object []) (Some example_context) =
       ([ConsoleLog (String ''Event: {}''),
         S3GetObject \<lparr>Bucket = String ''currency.prebid.org'', Key = String ''latest.json''\<rparr>],
        Inr ())"
    using loadSuccess_falsy [of world_null_body "\<lparr>Body = ''null''\<rparr>" Null
        "Some example_context"] p
    by (simp add: handler_context g s log_def)
  show ?thesis
    unfolding h using s p by (simp add: done_count_def)
qed

end
